theory Spec2Isabelle
  imports Main "HOL-Library.AList" "HOL-Library.Char_ord" "HOL-Library.List_Lexorder"
begin

section \<open>The health gate (waitForHealth)\<close>

text \<open>
  Time is counted in nanoseconds, as Go's \<^verbatim>\<open>time.Duration\<close> does. The instant of
  \<^verbatim>\<open>time.Now()\<close> is a natural number.
\<close>

definition Second :: nat where
  "Second = 1000000000"

text \<open>\<^verbatim>\<open>client := &http.Client{Timeout: 2 * time.Second}\<close>\<close>

definition healthClientTimeout :: nat where
  "healthClientTimeout = 2 * Second"

text \<open>\<^verbatim>\<open>time.Sleep(1 * time.Second)\<close>\<close>

definition healthSleep :: nat where
  "healthSleep = 1 * Second"

text \<open>
  What the endpoint does with one request: it answers with a status code after some
  latency, the connection fails after some latency, or nothing ever comes back.
\<close>

datatype response = Status nat nat | ConnError nat | Hang

text \<open>
  \<^verbatim>\<open>client.Get(url + "/version")\<close> issued at instant \<open>now\<close>: the pair of
  \<^verbatim>\<open>err == nil && resp.StatusCode == http.StatusOK\<close> and the instant at which the call
  returns. The client gives up once its timeout has elapsed.
\<close>

definition clientGet :: "(nat \<Rightarrow> response) \<Rightarrow> nat \<Rightarrow> bool \<times> nat" where
  "clientGet probe now =
     (case probe now of
        Status d code \<Rightarrow>
          if d < healthClientTimeout then (code = 200, now + d)
          else (False, now + healthClientTimeout)
      | ConnError d \<Rightarrow>
          if d < healthClientTimeout then (False, now + d)
          else (False, now + healthClientTimeout)
      | Hang \<Rightarrow> (False, now + healthClientTimeout))"

text \<open>
  The loop \<^verbatim>\<open>for time.Now().Before(deadline) { ... time.Sleep(1 * time.Second) }\<close>.
  The result is \<open>True\<close> for \<^verbatim>\<open>return nil\<close> and \<open>False\<close> for the error
  "backend did not become healthy", with the instant of the return.
\<close>

function healthLoop :: "(nat \<Rightarrow> response) \<Rightarrow> nat \<Rightarrow> nat \<Rightarrow> bool \<times> nat" where
  "healthLoop probe deadline now =
     (if now < deadline then
        (if fst (clientGet probe now) then (True, snd (clientGet probe now))
         else healthLoop probe deadline (snd (clientGet probe now) + healthSleep))
      else (False, now))"
  by pat_completeness auto

lemma clientGet_later: "now \<le> snd (clientGet probe now)"
  by (simp add: clientGet_def split: response.split)

lemma clientGet_bound: "snd (clientGet probe now) \<le> now + healthClientTimeout"
  by (simp add: clientGet_def split: response.split)

termination healthLoop
proof (relation "measure (\<lambda>(probe, deadline, now). deadline - now)")
  show "wf (measure (\<lambda>(probe, deadline, now). deadline - now))"
    by simp
next
  fix probe :: "nat \<Rightarrow> response" and deadline now :: nat
  assume "now < deadline"
  moreover have "now < snd (clientGet probe now) + healthSleep"
    using clientGet_later [of now probe] by (simp add: healthSleep_def Second_def)
  ultimately show "((probe, deadline, snd (clientGet probe now) + healthSleep),
                    (probe, deadline, now))
                   \<in> measure (\<lambda>(probe, deadline, now). deadline - now)"
    by simp
qed

declare healthLoop.simps [simp del]

text \<open>
  \<^verbatim>\<open>waitForHealth(url, timeout)\<close> started at instant \<open>start\<close>:
  \<^verbatim>\<open>deadline := time.Now().Add(timeout)\<close>, then the loop.
\<close>

definition waitForHealth :: "(nat \<Rightarrow> response) \<Rightarrow> nat \<Rightarrow> nat \<Rightarrow> bool \<times> nat" where
  "waitForHealth probe timeout start = healthLoop probe (start + timeout) start"

text \<open>The instants at which the loop issues its probes, in order.\<close>

function probeTimes :: "(nat \<Rightarrow> response) \<Rightarrow> nat \<Rightarrow> nat \<Rightarrow> nat list" where
  "probeTimes probe deadline now =
     (if now < deadline then
        (if fst (clientGet probe now) then [now]
         else now # probeTimes probe deadline (snd (clientGet probe now) + healthSleep))
      else [])"
  by pat_completeness auto

termination probeTimes
proof (relation "measure (\<lambda>(probe, deadline, now). deadline - now)")
  show "wf (measure (\<lambda>(probe, deadline, now). deadline - now))"
    by simp
next
  fix probe :: "nat \<Rightarrow> response" and deadline now :: nat
  assume "now < deadline"
  moreover have "now < snd (clientGet probe now) + healthSleep"
    using clientGet_later [of now probe] by (simp add: healthSleep_def Second_def)
  ultimately show "((probe, deadline, snd (clientGet probe now) + healthSleep),
                    (probe, deadline, now))
                   \<in> measure (\<lambda>(probe, deadline, now). deadline - now)"
    by simp
qed

declare probeTimes.simps [simp del]

subsection \<open>Properties of the health gate\<close>

lemma healthLoop_end_bound:
  "snd (healthLoop probe deadline now)
     \<le> max now deadline + healthClientTimeout + healthSleep"
proof (induction probe deadline now rule: healthLoop.induct)
  case (1 probe deadline now)
  show ?case
  proof (cases "now < deadline")
    case False
    then show ?thesis by (simp add: healthLoop.simps [of probe deadline now])
  next
    case True
    note lt = this
    show ?thesis
    proof (cases "fst (clientGet probe now)")
      case True
      with lt clientGet_bound [of probe now] show ?thesis
        by (simp add: healthLoop.simps [of probe deadline now])
    next
      case False
      let ?n = "snd (clientGet probe now) + healthSleep"
      have ih: "snd (healthLoop probe deadline ?n)
                  \<le> max ?n deadline + healthClientTimeout + healthSleep"
        using "1.IH" [OF lt False] .
      have "?n \<le> deadline + healthClientTimeout + healthSleep"
        using clientGet_bound [of probe now] lt by simp
      moreover have "healthLoop probe deadline now = healthLoop probe deadline ?n"
        using lt False by (simp add: healthLoop.simps [of probe deadline now])
      ultimately show ?thesis
      proof (cases "?n < deadline")
        case True
        with ih \<open>healthLoop probe deadline now = healthLoop probe deadline ?n\<close> lt
        show ?thesis by (simp add: max_def)
      next
        case False
        then have "healthLoop probe deadline ?n = (False, ?n)"
          by (simp add: healthLoop.simps [of probe deadline ?n])
        with \<open>healthLoop probe deadline now = healthLoop probe deadline ?n\<close>
          \<open>?n \<le> deadline + healthClientTimeout + healthSleep\<close> lt
        show ?thesis by (simp add: max_def)
      qed
    qed
  qed
qed

lemma healthLoop_failure_after_deadline:
  "\<not> fst (healthLoop probe deadline now) \<Longrightarrow> deadline \<le> snd (healthLoop probe deadline now)"
proof (induction probe deadline now rule: healthLoop.induct)
  case (1 probe deadline now)
  show ?case
  proof (cases "now < deadline")
    case False
    then show ?thesis by (simp add: healthLoop.simps [of probe deadline now])
  next
    case True
    note lt = this
    show ?thesis
    proof (cases "fst (clientGet probe now)")
      case True
      with lt "1.prems" show ?thesis
        by (simp add: healthLoop.simps [of probe deadline now])
    next
      case False
      with lt "1.prems" "1.IH" [OF lt False] show ?thesis
        by (simp add: healthLoop.simps [of probe deadline now])
    qed
  qed
qed

lemma healthLoop_success_probe:
  "fst (healthLoop probe deadline now) \<Longrightarrow>
   \<exists>t d. now \<le> t \<and> t < deadline \<and> probe t = Status d 200 \<and> d < healthClientTimeout
        \<and> snd (healthLoop probe deadline now) = t + d"
proof (induction probe deadline now rule: healthLoop.induct)
  case (1 probe deadline now)
  show ?case
  proof (cases "now < deadline")
    case False
    with "1.prems" show ?thesis by (simp add: healthLoop.simps [of probe deadline now])
  next
    case True
    note lt = this
    show ?thesis
    proof (cases "fst (clientGet probe now)")
      case True
      then obtain d where "probe now = Status d 200" "d < healthClientTimeout"
        "snd (clientGet probe now) = now + d"
        by (auto simp: clientGet_def split: response.splits if_splits)
      with lt True show ?thesis
        by (auto simp: healthLoop.simps [of probe deadline now])
    next
      case False
      let ?n = "snd (clientGet probe now) + healthSleep"
      have eq: "healthLoop probe deadline now = healthLoop probe deadline ?n"
        using lt False by (simp add: healthLoop.simps [of probe deadline now])
      with "1.prems" have "fst (healthLoop probe deadline ?n)" by simp
      from "1.IH" [OF lt False this] obtain t d where
        "?n \<le> t" "t < deadline" "probe t = Status d 200" "d < healthClientTimeout"
        "snd (healthLoop probe deadline ?n) = t + d" by blast
      moreover have "now \<le> ?n" using clientGet_later [of now probe] by simp
      ultimately show ?thesis using eq by (intro exI [of _ t] exI [of _ d]) simp
    qed
  qed
qed

text \<open>Two probes that follow one another are at least one sleep apart, and at most
  one sleep and one client timeout.\<close>

lemma probeTimes_gap:
  "probeTimes probe deadline now = t # u # ts \<Longrightarrow>
   t + healthSleep \<le> u \<and> u \<le> t + healthClientTimeout + healthSleep"
proof -
  assume a: "probeTimes probe deadline now = t # u # ts"
  let ?n = "snd (clientGet probe now) + healthSleep"
  from a have lt: "now < deadline"
    by (cases "now < deadline") (simp_all add: probeTimes.simps [of probe deadline now])
  from a lt have nf: "\<not> fst (clientGet probe now)"
    by (cases "fst (clientGet probe now)") (simp_all add: probeTimes.simps [of probe deadline now])
  have "probeTimes probe deadline now = now # probeTimes probe deadline ?n"
    using lt nf by (subst probeTimes.simps) simp
  with a have t: "t = now" and rest: "probeTimes probe deadline ?n = u # ts"
    by auto
  from rest have "u = ?n"
    by (cases "?n < deadline"; cases "fst (clientGet probe ?n)")
       (simp_all add: probeTimes.simps [of probe deadline ?n])
  with t clientGet_later [of now probe] clientGet_bound [of probe now]
  show ?thesis by simp
qed

text \<open>
  C7, as the claim states it, fails: the timeout of a single probe (2 seconds) is not
  shorter than the pause between probes (1 second), probes are not one second apart when
  a probe is slow, and the gate can return more than one pause after its deadline. With a
  first probe refused after half a second and every later probe hanging, the 30-second
  gate issues its second probe at 1.5 s, the third at 4.5 s, and returns at 31.5 s.
\<close>

theorem C7_probe_timeout_counterexample:
  "\<not> healthClientTimeout < healthSleep
   \<and> take 3 (probeTimes (\<lambda>t. if t = 0 then ConnError 500000000 else Hang) (30 * Second) 0)
       = [0, 1500000000, 4500000000]
   \<and> waitForHealth (\<lambda>t. if t = 0 then ConnError 500000000 else Hang) (30 * Second) 0
       = (False, 31500000000)
   \<and> \<not> 31500000000 \<le> 0 + 30 * Second + healthSleep"
proof -
  let ?p = "\<lambda>t::nat. if t = 0 then ConnError 500000000 else Hang"
  have g0: "clientGet ?p 0 = (False, 500000000)"
    by (simp add: clientGet_def healthClientTimeout_def Second_def)
  have g: "\<And>n. 0 < n \<Longrightarrow> clientGet ?p n = (False, n + 2000000000)"
    by (simp add: clientGet_def healthClientTimeout_def Second_def)
  have step0: "healthLoop ?p 30000000000 0 = healthLoop ?p 30000000000 1500000000"
    by (subst healthLoop.simps) (simp add: g0 healthSleep_def Second_def)
  have step: "\<And>n. 0 < n \<Longrightarrow> n < 30000000000 \<Longrightarrow>
      healthLoop ?p 30000000000 n = healthLoop ?p 30000000000 (3000000000 + n)"
    by (subst healthLoop.simps) (simp add: g healthSleep_def Second_def)
  have fin: "healthLoop ?p 30000000000 31500000000 = (False, 31500000000)"
    by (subst healthLoop.simps) simp
  have "healthLoop ?p 30000000000 0 = (False, 31500000000)"
    by (simp add: step0 step fin)
  then have w: "waitForHealth ?p (30 * Second) 0 = (False, 31500000000)"
    by (simp add: waitForHealth_def Second_def)
  have p0: "probeTimes ?p 30000000000 0 = 0 # probeTimes ?p 30000000000 1500000000"
    by (subst probeTimes.simps) (simp add: g0 healthSleep_def Second_def)
  have p1: "probeTimes ?p 30000000000 1500000000
              = 1500000000 # probeTimes ?p 30000000000 4500000000"
    by (subst probeTimes.simps) (simp add: g healthSleep_def Second_def)
  have p2: "probeTimes ?p 30000000000 4500000000
              = 4500000000 # probeTimes ?p 30000000000 7500000000"
    by (subst probeTimes.simps) (simp add: g healthSleep_def Second_def)
  have t: "take 3 (probeTimes ?p (30 * Second) 0) = [0, 1500000000, 4500000000]"
    by (simp add: Second_def p0 p1 p2)
  show ?thesis
    using w t by (simp add: healthClientTimeout_def healthSleep_def Second_def)
qed

text \<open>
  C7, amended: the gate probes until a probe answers 200 within the client timeout or
  the deadline has passed; after each unsuccessful probe it sleeps one second, so two
  consecutive probes are between 1 and 3 seconds apart; each probe is cut off after
  2 seconds, which is longer than the 1-second sleep; and the gate returns no later than
  the deadline plus one client timeout plus one sleep. A failure is reported only once
  the deadline has passed, a success only for a probe issued before the deadline.
\<close>

theorem C7_health_gate_amended:
  "healthSleep = 1 * Second \<and> healthClientTimeout = 2 * Second
   \<and> healthSleep < healthClientTimeout
   \<and> snd (waitForHealth probe timeout start)
       \<le> start + timeout + healthClientTimeout + healthSleep
   \<and> (\<not> fst (waitForHealth probe timeout start)
        \<longrightarrow> start + timeout \<le> snd (waitForHealth probe timeout start))
   \<and> (fst (waitForHealth probe timeout start)
        \<longrightarrow> (\<exists>t d. start \<le> t \<and> t < start + timeout \<and> probe t = Status d 200
                  \<and> d < healthClientTimeout
                  \<and> snd (waitForHealth probe timeout start) = t + d))
   \<and> (\<forall>t u ts. probeTimes probe (start + timeout) start = t # u # ts
        \<longrightarrow> t + healthSleep \<le> u \<and> u \<le> t + healthClientTimeout + healthSleep)"
proof -
  have "snd (waitForHealth probe timeout start)
          \<le> start + timeout + healthClientTimeout + healthSleep"
    using healthLoop_end_bound [of probe "start + timeout" start]
    by (simp add: waitForHealth_def max_def)
  moreover have "\<not> fst (waitForHealth probe timeout start)
        \<longrightarrow> start + timeout \<le> snd (waitForHealth probe timeout start)"
    using healthLoop_failure_after_deadline [of probe "start + timeout" start]
    by (simp add: waitForHealth_def)
  moreover have "fst (waitForHealth probe timeout start)
        \<longrightarrow> (\<exists>t d. start \<le> t \<and> t < start + timeout \<and> probe t = Status d 200
                  \<and> d < healthClientTimeout
                  \<and> snd (waitForHealth probe timeout start) = t + d)"
    using healthLoop_success_probe [of probe "start + timeout" start]
    by (simp add: waitForHealth_def)
  moreover have "\<forall>t u ts. probeTimes probe (start + timeout) start = t # u # ts
        \<longrightarrow> t + healthSleep \<le> u \<and> u \<le> t + healthClientTimeout + healthSleep"
    using probeTimes_gap by blast
  ultimately show ?thesis
    by (simp add: healthSleep_def healthClientTimeout_def Second_def)
qed

theorem C7_health_gate_amended_witness:
  "fst (waitForHealth (\<lambda>t. if t < 2000000000 then ConnError 0 else Status 5 200) (30 * Second) 0)
   \<and> snd (waitForHealth (\<lambda>t. if t < 2000000000 then ConnError 0 else Status 5 200) (30 * Second) 0)
       = 2 * Second + 5
   \<and> \<not> fst (waitForHealth (\<lambda>t. Hang) (3 * Second) 0)
   \<and> 0 + 3 * Second \<le> snd (waitForHealth (\<lambda>t. Hang) (3 * Second) 0)
   \<and> probeTimes (\<lambda>t. Hang) (0 + 4 * Second) 0 = [0, 3 * Second]
   \<and> 0 + healthSleep \<le> 3 * Second"
proof -
  let ?p = "\<lambda>t::nat. if t < 2000000000 then ConnError 0 else Status 5 200"
  let ?h = "\<lambda>t::nat. Hang"
  have a: "healthLoop ?p 30000000000 0 = healthLoop ?p 30000000000 1000000000"
    by (subst healthLoop.simps)
       (simp add: clientGet_def healthClientTimeout_def healthSleep_def Second_def)
  have b: "healthLoop ?p 30000000000 1000000000 = healthLoop ?p 30000000000 2000000000"
    by (subst healthLoop.simps)
       (simp add: clientGet_def healthClientTimeout_def healthSleep_def Second_def)
  have c: "healthLoop ?p 30000000000 2000000000 = (True, 2000000005)"
    by (subst healthLoop.simps)
       (simp add: clientGet_def healthClientTimeout_def healthSleep_def Second_def)
  have ok: "waitForHealth ?p (30 * Second) 0 = (True, 2 * Second + 5)"
    by (simp add: waitForHealth_def Second_def a b c)
  have d: "healthLoop ?h 3000000000 0 = healthLoop ?h 3000000000 3000000000"
    by (subst healthLoop.simps)
       (simp add: clientGet_def healthClientTimeout_def healthSleep_def Second_def)
  have e: "healthLoop ?h 3000000000 3000000000 = (False, 3000000000)"
    by (subst healthLoop.simps) simp
  have ko: "waitForHealth ?h (3 * Second) 0 = (False, 3 * Second)"
    by (simp add: waitForHealth_def Second_def d e)
  have p0: "probeTimes ?h 4000000000 0 = 0 # probeTimes ?h 4000000000 3000000000"
    by (subst probeTimes.simps)
       (simp add: clientGet_def healthClientTimeout_def healthSleep_def Second_def)
  have p1: "probeTimes ?h 4000000000 3000000000 = 3000000000 # probeTimes ?h 4000000000 6000000000"
    by (subst probeTimes.simps)
       (simp add: clientGet_def healthClientTimeout_def healthSleep_def Second_def)
  have p2: "probeTimes ?h 4000000000 6000000000 = []"
    by (subst probeTimes.simps) simp
  have pt: "probeTimes ?h (0 + 4 * Second) 0 = [0, 3 * Second]"
    by (simp add: Second_def p0 p1 p2)
  have gap: "0 + healthSleep \<le> 3 * Second"
    using C7_health_gate_amended [of ?h "4 * Second" 0] pt by simp
  show ?thesis
    using C7_health_gate_amended [of ?p "30 * Second" 0]
          C7_health_gate_amended [of ?h "3 * Second" 0] ok ko pt gap
    by simp
qed

end
